theory Spec2Isabelle
  imports Main "HOL-Library.Char_ord" "HOL-Library.List_Lexorder"
begin

text \<open>
  The jail of status-go: a registry of script cells, one per chat, and the bridge through which
  a script sends JSON-RPC requests to the node (package \<^verbatim>\<open>jail\<close> of the sources).

  The registry and the bridge are modelled as they are written.  The script engine (Otto), the
  node manager, the RPC client, \<^verbatim>\<open>encoding/json\<close> and the semaphore are libraries: what the code
  obtains from them is a parameter of the model (the record \<open>env\<close>), except for the JSON texts
  and the conversions of script values, which are written out.  A function of the code takes
  the environment, its receiver (\<open>None\<close> for a nil pointer) and the world, and returns its value
  together with the new contents of the receiver and the new world.

  Goroutines are not modelled: the functions run one at a time, and a gate shows only as the
  events of its acquisition and release.  What a script does while the engine evaluates it is
  not part of the operation that started the evaluation: a call of the bridge from a script is
  a further operation on the same registry.
\<close>

section \<open>The script engine's values\<close>

text \<open>
  The jail hands values to and from the Otto script engine (\<^verbatim>\<open>otto.Value\<close>).  The engine is a
  library outside the repository; its values are represented by the trees below.  Numbers are
  restricted to integers, printed in plain decimal (as the engine prints those below \<^verbatim>\<open>1e21\<close>).  \<open>JFunction\<close> carries the source text of a script function, and
  \<open>JCircular\<close> stands for an object whose property graph contains a cycle (the one kind of
  value on which \<^verbatim>\<open>JSON.stringify\<close> raises an error).  An object is the list of its members
  in insertion order.
\<close>

datatype jsval =
    JUndefined
  | JNull
  | JBool bool
  | JNumber int
  | JString string
  | JArray "jsval list"
  | JObject "(string \<times> jsval) list"
  | JFunction string
  | JCircular

text \<open>Decimal notation of integers, as both Go and the script engine print them.\<close>

definition digit_char :: "nat \<Rightarrow> char" where
  "digit_char d = ''0123456789abcdef'' ! (d mod 16)"

fun nat_digits :: "nat \<Rightarrow> string" where
  "nat_digits n = (if n < 10 then [digit_char n] else nat_digits (n div 10) @ [digit_char (n mod 10)])"

declare nat_digits.simps [simp del]

definition int_digits :: "int \<Rightarrow> string" where
  "int_digits i = (if i < 0 then CHR ''-'' # nat_digits (nat (- i)) else nat_digits (nat i))"

text \<open>
  \<^verbatim>\<open>encoding/json\<close> writes a Go string as a JSON string literal: the quote and the backslash are
  escaped with a backslash, newline, carriage return and tab by their letters, and the other
  control characters and \<^verbatim>\<open><\<close>, \<^verbatim>\<open>>\<close>, \<^verbatim>\<open>&\<close> as \<^verbatim>\<open>\u00XX\<close>.  Bytes from 128 upwards are
  copied: the text is taken to be well-formed UTF-8 without the separators U+2028 and U+2029,
  which \<^verbatim>\<open>encoding/json\<close> escapes.
\<close>

definition json_escape_char :: "char \<Rightarrow> string" where
  "json_escape_char c =
     (if c = CHR 0x22 then [CHR 0x5C, CHR 0x22]
      else if c = CHR 0x5C then [CHR 0x5C, CHR 0x5C]
      else if c = CHR 0x0A then [CHR 0x5C, CHR ''n'']
      else if c = CHR 0x0D then [CHR 0x5C, CHR ''r'']
      else if c = CHR 0x09 then [CHR 0x5C, CHR ''t'']
      else if of_char c < (32::nat) \<or> c = CHR ''<'' \<or> c = CHR ''>'' \<or> c = CHR ''&''
        then [CHR 0x5C, CHR ''u'', CHR ''0'', CHR ''0'',
              digit_char (of_char c div 16), digit_char (of_char c mod 16)]
      else [c])"

definition json_quote :: "string \<Rightarrow> string" where
  "json_quote s = CHR 0x22 # concat (map json_escape_char s) @ [CHR 0x22]"

fun join :: "string \<Rightarrow> string list \<Rightarrow> string" where
  "join sep [] = []"
| "join sep [x] = x"
| "join sep (x # y # ys) = x @ sep @ join sep (y # ys)"

text \<open>
  \<^verbatim>\<open>JSON.stringify\<close> of the script engine (the built-in \<^verbatim>\<open>JSON\<close> object, with one argument).
  A value with a cycle raises a TypeError; undefined and functions have no JSON text (the
  result is undefined), inside an array they are written \<^verbatim>\<open>null\<close> and inside an object their
  member is left out.  Strings are written as \<^verbatim>\<open>encoding/json\<close> writes them.  The members of
  an object are written in the order of the list; the engine writes them sorted by key, so
  the text is the engine's for an object whose list is sorted (nothing below depends on the
  order of the members).
\<close>

fun has_cycle :: "jsval \<Rightarrow> bool" where
  "has_cycle JCircular = True"
| "has_cycle (JArray xs) = (\<exists>x \<in> set xs. has_cycle x)"
| "has_cycle (JObject ms) = (\<exists>m \<in> set ms. has_cycle (snd m))"
| "has_cycle _ = False"

fun has_json_text :: "jsval \<Rightarrow> bool" where
  "has_json_text JUndefined = False"
| "has_json_text (JFunction _) = False"
| "has_json_text _ = True"

fun json_text :: "jsval \<Rightarrow> string" where
  "json_text JUndefined = ''null''"
| "json_text JNull = ''null''"
| "json_text (JBool b) = (if b then ''true'' else ''false'')"
| "json_text (JNumber n) = int_digits n"
| "json_text (JString s) = json_quote s"
| "json_text (JArray xs) = ''['' @ join '','' (map json_text xs) @ '']''"
| "json_text (JObject ms) =
     ''{'' @ join '','' (map (\<lambda>m. json_quote (fst m) @ '':'' @ json_text (snd m))
                          (filter (\<lambda>m. has_json_text (snd m)) ms)) @ ''}''"
| "json_text (JFunction _) = ''null''"
| "json_text JCircular = ''null''"

definition JSON_stringify :: "jsval \<Rightarrow> string + jsval" where
  "JSON_stringify v =
     (if has_cycle v then Inl ''TypeError: Converting circular structure to JSON''
      else if has_json_text v then Inr (JString (json_text v))
      else Inr JUndefined)"

text \<open>
  \<^verbatim>\<open>Value.String()\<close>: the script engine's conversion of a value to a string.
\<close>

fun value_String :: "jsval \<Rightarrow> string" where
  "value_String JUndefined = ''undefined''"
| "value_String JNull = ''null''"
| "value_String (JBool b) = (if b then ''true'' else ''false'')"
| "value_String (JNumber n) = int_digits n"
| "value_String (JString s) = s"
| "value_String (JArray xs) =
     join '','' (map (\<lambda>x. if x = JUndefined \<or> x = JNull then [] else value_String x) xs)"
| "value_String (JObject ms) = ''[object Object]''"
| "value_String (JFunction src) = src"
| "value_String JCircular = ''[object Object]''"

text \<open>\<^verbatim>\<open>Value.Class()\<close>: the class of an object, the empty string for a value that is none.\<close>

fun Class :: "jsval \<Rightarrow> string" where
  "Class (JFunction _) = ''Function''"
| "Class (JArray _) = ''Array''"
| "Class (JObject _) = ''Object''"
| "Class JCircular = ''Object''"
| "Class _ = []"

section \<open>The data model\<close>

text \<open>
  Modelled from the spec: \<^verbatim>\<open>geth.RPCCall\<close> is declared outside the given sources.  A call has
  a request identifier (any JSON scalar), a method name and an ordered sequence of parameters.
\<close>

record RPCCall =
  Id' :: jsval
  Method :: string
  Params :: "jsval list"

text \<open>
  A Go \<^verbatim>\<open>error\<close> returned by the RPC client: either one that implements \<^verbatim>\<open>rpc.Error\<close> (it has
  an error code), or any other error.
\<close>

datatype go_error = RPCError int string | OtherError string

text \<open>
  A Go panic leaving a function: \<^verbatim>\<open>throwJSException\<close> panics on a script value, which the
  engine turns into a script exception; anything else is a runtime error.
\<close>

datatype panic = JSException jsval | RuntimeError string

text \<open>
  Pointers are addresses (natural numbers); a nil pointer is \<open>None\<close>.  What is done to a script
  engine instance and to the collaborators is recorded, in order, as a list of events.  The
  state of an engine instance is the list of operations performed on it so far.  The event of
  an acquisition carries what \<^verbatim>\<open>Acquire\<close> returns: \<open>None\<close> when the ticket was obtained, the error
  when the bounded wait elapsed.  The cell mapping of a registry is the map that \<^verbatim>\<open>New\<close> makes
  (never a nil map).
\<close>

datatype vm_op =
    Run string
  | SetValue string jsval
  | BindSend string string
  | CallFunction string "jsval list"
  | CallValue jsval "jsval list"

datatype event =
    Vm nat vm_op
  | SemAcquire nat "string option"
  | SemRelease nat
  | PreProcessRequest nat nat RPCCall
  | PostProcessRequest nat nat RPCCall
  | ClientCall nat string "jsval list"

record JailedRuntime =
  id' :: string
  vm :: nat
  sem :: nat

record Jail =
  client :: "nat option"
  cells :: "string \<rightharpoonup> JailedRuntime"
  statusJS :: string
  requestQueue :: "nat option"

record world =
  events :: "event list"
  fresh :: nat

text \<open>
  What the code consumes from outside the given sources: the node manager, the RPC client,
  the script engine's evaluator, the JSON decoders, the semaphore's bounded wait and two
  constants.  \<open>client_Call c i method params\<close> is the outcome of the \<open>i\<close>-th dispatch of one
  \<^verbatim>\<open>Send\<close>: the error, or the raw result (\<open>None\<close> for a nil \<^verbatim>\<open>json.RawMessage\<close>).  The evaluator's
  answers depend on the operations the engine instance has seen.  The decoders return what is
  left in the target together with the error that \<^verbatim>\<open>json.Unmarshal\<close> reports.
\<close>

record env =
  HasNode :: bool
  NodeManager_ClientRestartWrapper :: "string + nat"
  NodeManager_JailedRequestQueue :: "string + nat"
  ErrInvalidGethNode :: string
  Web3_JS :: string
  client_Call :: "nat \<Rightarrow> nat \<Rightarrow> string \<Rightarrow> jsval list \<Rightarrow> go_error + string option"
  otto_Run :: "vm_op list \<Rightarrow> string \<Rightarrow> string option"
  otto_Get :: "vm_op list \<Rightarrow> string \<Rightarrow> jsval"
  otto_Call :: "vm_op list \<Rightarrow> string \<Rightarrow> jsval list \<Rightarrow> string + jsval"
  JSON_parse :: "string \<Rightarrow> string + jsval"
  json_Unmarshal_calls :: "string \<Rightarrow> RPCCall list \<times> string option"
  json_Unmarshal_call :: "string \<Rightarrow> RPCCall \<times> string option"
  sem_Acquire :: "nat \<Rightarrow> string option"

definition log :: "event \<Rightarrow> world \<Rightarrow> world" where
  "log e w = w\<lparr>events := events w @ [e]\<rparr>"

fun vm_ops :: "nat \<Rightarrow> event list \<Rightarrow> vm_op list" where
  "vm_ops v [] = []"
| "vm_ops v (Vm v' op # es) = (if v' = v then op # vm_ops v es else vm_ops v es)"
| "vm_ops v (_ # es) = vm_ops v es"

definition vm_history :: "world \<Rightarrow> nat \<Rightarrow> vm_op list" where
  "vm_history w v = vm_ops v (events w)"

definition vm_Run :: "env \<Rightarrow> nat \<Rightarrow> string \<Rightarrow> world \<Rightarrow> string option \<times> world" where
  "vm_Run E v src w = (otto_Run E (vm_history w v) src, log (Vm v (Run src)) w)"

section \<open>The registry\<close>

definition ErrInvalidJail :: string where
  "ErrInvalidJail = ''jail environment is not properly initialized''"

definition NewJailedRuntime :: "string \<Rightarrow> world \<Rightarrow> JailedRuntime \<times> world" where
  "NewJailedRuntime ident w =
     (\<lparr>id' = ident, vm = fresh w, sem = Suc (fresh w)\<rparr>, w\<lparr>fresh := fresh w + 2\<rparr>)"

text \<open>
  Modelled from the spec: \<^verbatim>\<open>geth.JSONError\<close> is declared outside the given sources; its one
  field is written under the key \<^verbatim>\<open>error\<close>.
\<close>

definition printError :: "string \<Rightarrow> string" where
  \<open>printError error = ''{"error":'' @ json_quote error @ ''}''\<close>

definition printResult :: "string \<Rightarrow> string option \<Rightarrow> string" where
  \<open>printResult res err =
     (case err of
        Some e \<Rightarrow> printError e
      | None \<Rightarrow> ''{"result": '' @ (if ''undefined'' = res then ''null'' else res) @ ''}'')\<close>

definition ClientRestartWrapper :: "env \<Rightarrow> Jail option \<Rightarrow> (string + nat) \<times> Jail option" where
  "ClientRestartWrapper E jail =
     (case jail of
        None \<Rightarrow> (Inl ErrInvalidJail, None)
      | Some j \<Rightarrow>
          (case client j of
             Some c \<Rightarrow> (Inr c, Some j)
           | None \<Rightarrow>
               if \<not> HasNode E then (Inl (ErrInvalidGethNode E), Some j)
               else (case NodeManager_ClientRestartWrapper E of
                       Inl err \<Rightarrow> (Inl err, Some j)
                     | Inr c \<Rightarrow> (Inr c, Some (j\<lparr>client := Some c\<rparr>)))))"

definition RequestQueue :: "env \<Rightarrow> Jail option \<Rightarrow> (string + nat) \<times> Jail option" where
  "RequestQueue E jail =
     (case jail of
        None \<Rightarrow> (Inl ErrInvalidJail, None)
      | Some j \<Rightarrow>
          (case requestQueue j of
             Some q \<Rightarrow> (Inr q, Some j)
           | None \<Rightarrow>
               if \<not> HasNode E then (Inl (ErrInvalidGethNode E), Some j)
               else (case NodeManager_JailedRequestQueue E of
                       Inl err \<Rightarrow> (Inl err, Some j)
                     | Inr q \<Rightarrow> (Inr q, Some (j\<lparr>requestQueue := Some q\<rparr>)))))"

definition preamble :: string where
  \<open>preamble =
     [CHR 0x0A, CHR 0x09] @ ''var Web3 = require('web3');'' @
     [CHR 0x0A, CHR 0x09] @ ''var web3 = new Web3(jeth);'' @
     [CHR 0x0A, CHR 0x09] @ ''var Bignumber = require("bignumber.js");'' @
     [CHR 0x0A] @ ''        function bn(val){'' @
     [CHR 0x0A] @ ''            return new Bignumber(val);'' @
     [CHR 0x0A] @ ''        }'' @
     [CHR 0x0A, CHR 0x09]\<close>

definition Parse :: "env \<Rightarrow> Jail option \<Rightarrow> world \<Rightarrow> string \<Rightarrow> string \<Rightarrow> string \<times> Jail option \<times> world" where
  "Parse E jail w chatId js =
     (case jail of
        None \<Rightarrow> (printError ErrInvalidJail, None, w)
      | Some j \<Rightarrow>
          (let (cell, w0) = NewJailedRuntime chatId w;
               j' = j\<lparr>cells := (cells j)(chatId \<mapsto> cell)\<rparr>;
               initJjs = statusJS j @ '';'';
               (err, w1) = vm_Run E (vm cell) initJjs w0;
               w2 = log (Vm (vm cell) (SetValue ''jeth'' (JObject []))) w1;
               w3 = log (Vm (vm cell) (BindSend ''jeth'' ''send'')) w2;
               w4 = log (Vm (vm cell) (BindSend ''jeth'' ''sendAsync'')) w3;
               jjs = Web3_JS E @ preamble @ js @ ''; var catalog = JSON.stringify(_status_catalog);'';
               (_, w5) = vm_Run E (vm cell) jjs w4;
               res = otto_Get E (vm_history w5 (vm cell)) ''catalog''
           in (printResult (value_String res) err, Some j', w5)))"

definition Call :: "env \<Rightarrow> Jail option \<Rightarrow> world \<Rightarrow> string \<Rightarrow> string \<Rightarrow> string \<Rightarrow> (panic + string) \<times> Jail option \<times> world" where
  "Call E jail w chatId path args =
     (case ClientRestartWrapper E jail of
        (Inl err, jail') \<Rightarrow> (Inr (printError err), jail', w)
      | (Inr _, None) \<Rightarrow> (Inl (RuntimeError ''nil pointer dereference''), None, w)
      | (Inr _, Some j) \<Rightarrow>
          (case cells j chatId of
             None \<Rightarrow> (Inr (printError (''Cell['' @ chatId @ ''] doesn't exist.'')), Some j, w)
           | Some cell \<Rightarrow>
               (let w1 = log (SemAcquire (sem cell) (sem_Acquire E (sem cell))) w;
                    r = otto_Call E (vm_history w1 (vm cell)) ''call'' [JString path, JString args];
                    w2 = log (Vm (vm cell) (CallFunction ''call'' [JString path, JString args])) w1;
                    out = (case r of
                             Inl err \<Rightarrow> printResult (value_String JUndefined) (Some err)
                           | Inr res \<Rightarrow> printResult (value_String res) None)
                in (Inr out, Some j, log (SemRelease (sem cell)) w2))))"

definition GetVM :: "Jail option \<Rightarrow> string \<Rightarrow> (string + nat) \<times> Jail option" where
  "GetVM jail chatId =
     (case jail of
        None \<Rightarrow> (Inl ErrInvalidJail, None)
      | Some j \<Rightarrow>
          (case cells j chatId of
             None \<Rightarrow> (Inl (''Cell['' @ chatId @ ''] doesn't exist.''), Some j)
           | Some cell \<Rightarrow> (Inr (vm cell), Some j)))"

section \<open>The bridge\<close>

record FunctionCall =
  Otto :: nat
  ArgumentList :: "jsval list"

definition Argument :: "FunctionCall \<Rightarrow> nat \<Rightarrow> jsval" where
  "Argument call i = (if i < length (ArgumentList call) then ArgumentList call ! i else JUndefined)"

text \<open>\<^verbatim>\<open>Object.Set\<close> and \<^verbatim>\<open>Object.Get\<close> of the script engine.\<close>

fun Set_member :: "string \<Rightarrow> jsval \<Rightarrow> (string \<times> jsval) list \<Rightarrow> (string \<times> jsval) list" where
  "Set_member k v [] = [(k, v)]"
| "Set_member k v (m # ms) = (if fst m = k then (k, v) # ms else m # Set_member k v ms)"

fun Object_Set :: "jsval \<Rightarrow> string \<Rightarrow> jsval \<Rightarrow> jsval" where
  "Object_Set (JObject ms) k v = JObject (Set_member k v ms)"
| "Object_Set x k v = x"

fun Object_Get :: "jsval \<Rightarrow> string \<Rightarrow> jsval" where
  "Object_Get (JObject ms) k = (case map_of ms k of Some v \<Rightarrow> v | None \<Rightarrow> JUndefined)"
| "Object_Get (JArray xs) k =
     (case filter (\<lambda>p. nat_digits (fst p) = k) (enumerate 0 xs) of
        [] \<Rightarrow> JUndefined
      | p # _ \<Rightarrow> snd p)"
| "Object_Get x k = JUndefined"

text \<open>
  A Go map literal assigns its entries in order, so a later entry with the same key replaces
  an earlier one.  \<^verbatim>\<open>json.Marshal\<close> writes the entries of a map sorted by key, and evaluating
  the parenthesised text yields the object with these members; a Go value that came from JSON
  is the same tree in the script engine.
\<close>

definition go_map :: "(string \<times> jsval) list \<Rightarrow> (string \<times> jsval) list" where
  "go_map entries = foldl (\<lambda>m e. Set_member (fst e) (snd e) m) [] entries"

definition marshal_map :: "(string \<times> jsval) list \<Rightarrow> jsval" where
  "marshal_map m = JObject (sort_key fst m)"

definition newErrorResponse :: "int \<Rightarrow> string \<Rightarrow> jsval option \<Rightarrow> jsval" where
  "newErrorResponse code msg ident =
     marshal_map (go_map
       [(''version'', JString ''2.0''),
        (''id'', case ident of None \<Rightarrow> JNull | Some v \<Rightarrow> v),
        (''error'', marshal_map (go_map [(''code'', JNumber code), (msg, JString msg)]))])"

definition throwJSException :: "string \<Rightarrow> panic" where
  "throwJSException msg = JSException (JString msg)"

text \<open>
  The request is remarshalled: the first byte of the text decides between a batch and a single
  request.  Indexing an empty text is a runtime error.
\<close>

definition decode_requests :: "env \<Rightarrow> string \<Rightarrow> panic + bool \<times> RPCCall list" where
  "decode_requests E rawReq =
     (case rawReq of
        [] \<Rightarrow> Inl (RuntimeError ''index out of range'')
      | c # _ \<Rightarrow>
          if c = CHR ''['' then Inr (True, fst (json_Unmarshal_calls E rawReq))
          else Inr (False, [fst (json_Unmarshal_call E rawReq)]))"

text \<open>
  The response to one request: the body of the loop from the dispatch to the switch on its
  outcome.  The relay of the error through two channels hands the error on unchanged.
\<close>

definition dispatch :: "env \<Rightarrow> nat \<Rightarrow> nat \<Rightarrow> RPCCall \<Rightarrow> jsval" where
  "dispatch E c i req =
     (let resp = Object_Set (JObject [(''jsonrpc'', JString ''2.0'')]) ''id'' (Id' req)
      in case client_Call E c i (Method req) (Params req) of
           Inr None \<Rightarrow> Object_Set resp ''result'' JNull
         | Inr (Some result) \<Rightarrow>
             (case JSON_parse E result of
                Inl err \<Rightarrow> newErrorResponse (-32603) err (Some (Id' req))
              | Inr resultVal \<Rightarrow> Object_Set resp ''result'' resultVal)
         | Inl (RPCError code msg) \<Rightarrow>
             Object_Set resp ''error'' (JObject [(''code'', JNumber code), (''message'', JString msg)])
         | Inl (OtherError msg) \<Rightarrow> newErrorResponse (-32603) msg (Some (Id' req)))"

text \<open>
  The loop over the requests.  It carries the responses pushed so far, the stack of deferred
  calls (the most recent first) and the world; \<open>i\<close> counts the dispatches.
\<close>

fun execute :: "env \<Rightarrow> nat \<Rightarrow> nat \<Rightarrow> nat \<Rightarrow> nat \<Rightarrow> RPCCall list
    \<Rightarrow> jsval list \<times> event list \<times> world \<Rightarrow> jsval list \<times> event list \<times> world" where
  "execute E c q v i [] st = st"
| "execute E c q v i (req # reqs) (resps, deferred, w) =
     (let w1 = log (PreProcessRequest q v req) w;
          deferred1 = PostProcessRequest q v req # deferred;
          w2 = log (ClientCall c (Method req) (Params req)) w1;
          resp = dispatch E c i req
      in execute E c q v (Suc i) reqs (resps @ [resp], deferred1, w2))"

text \<open>When a Go function returns, its deferred calls run, the most recently deferred first.\<close>

definition run_deferred :: "event list \<Rightarrow> world \<Rightarrow> world" where
  "run_deferred deferred w = foldl (\<lambda>w' e. log e w') w deferred"

definition Send :: "env \<Rightarrow> Jail option \<Rightarrow> world \<Rightarrow> FunctionCall \<Rightarrow> (panic + jsval) \<times> Jail option \<times> world" where
  "Send E jail w call =
     (case ClientRestartWrapper E jail of
        (Inl err, jail1) \<Rightarrow> (Inr (newErrorResponse (-32603) err None), jail1, w)
      | (Inr clientFactory, jail1) \<Rightarrow>
          (case RequestQueue E jail1 of
             (Inl err, jail2) \<Rightarrow> (Inr (newErrorResponse (-32603) err None), jail2, w)
           | (Inr queue, jail2) \<Rightarrow>
               (case JSON_stringify (Argument call 0) of
                  Inl err \<Rightarrow> (Inl (throwJSException err), jail2, w)
                | Inr reqVal \<Rightarrow>
                    (case decode_requests E (value_String reqVal) of
                       Inl p \<Rightarrow> (Inl p, jail2, w)
                     | Inr (batch, reqs) \<Rightarrow>
                         (let (resps, deferred, w1) =
                                execute E clientFactory queue (Otto call) 0 reqs ([], [], w);
                              response = (if batch then JArray resps
                                          else Object_Get (JArray resps) ''0'');
                              fn = Argument call 1
                          in if Class fn = ''Function''
                             then (Inr JUndefined, jail2,
                                   run_deferred deferred
                                     (log (Vm (Otto call) (CallValue fn [JNull, response])) w1))
                             else (Inr response, jail2, run_deferred deferred w1))))))"

section \<open>Notions used to state the properties\<close>

text \<open>The members of an object, by key.\<close>

fun members :: "jsval \<Rightarrow> string \<rightharpoonup> jsval" where
  "members (JObject ms) = map_of ms"
| "members _ = Map.empty"



text \<open>What the loop of \<^verbatim>\<open>Send\<close> does to the collaborators for a sequence of requests.\<close>

definition dispatch_events :: "nat \<Rightarrow> nat \<Rightarrow> nat \<Rightarrow> RPCCall list \<Rightarrow> event list" where
  "dispatch_events c q v reqs =
     concat (map (\<lambda>r. [PreProcessRequest q v r, ClientCall c (Method r) (Params r)]) reqs)"

text \<open>The responses that the loop pushes for a sequence of requests.\<close>

definition responses :: "env \<Rightarrow> nat \<Rightarrow> RPCCall list \<Rightarrow> jsval list" where
  "responses E c reqs = map (\<lambda>p. dispatch E c (fst p) (snd p)) (enumerate 0 reqs)"

text \<open>The \<^verbatim>\<open>code\<close> member of the \<^verbatim>\<open>error\<close> member of a response.\<close>

definition error_code :: "jsval \<Rightarrow> jsval option" where
  "error_code resp = (case members resp ''error'' of None \<Rightarrow> None | Some e \<Rightarrow> members e ''code'')"

text \<open>The events on a cell's gate.\<close>

definition is_gate_event :: "event \<Rightarrow> bool" where
  "is_gate_event e = (case e of SemAcquire s r \<Rightarrow> True | SemRelease s \<Rightarrow> True | _ \<Rightarrow> False)"

text \<open>
  The frame of the operations that do not bootstrap a cell: the cell mapping and the bootstrap
  text stay as they are, and a client handle or a queue handle that is set stays as it is.
\<close>

definition registry_frame :: "Jail option \<Rightarrow> Jail option \<Rightarrow> bool" where
  "registry_frame jail jail' =
     (case (jail, jail') of
        (None, None) \<Rightarrow> True
      | (Some j, Some j') \<Rightarrow>
          cells j' = cells j \<and> statusJS j' = statusJS j \<and>
          (client j \<noteq> None \<longrightarrow> client j' = client j) \<and>
          (requestQueue j \<noteq> None \<longrightarrow> requestQueue j' = requestQueue j)
      | _ \<Rightarrow> False)"

text \<open>
  Any number of these operations, one after the other, each in the environment of its moment.
  A script that calls the bridge while \<^verbatim>\<open>Call\<close> evaluates it gives such a sequence.
\<close>

datatype operation = OpCall string string string | OpGetVM string | OpSend FunctionCall

fun perform :: "env \<Rightarrow> operation \<Rightarrow> Jail option \<times> world \<Rightarrow> Jail option \<times> world" where
  "perform E (OpCall chatId path args) (jail, w) = snd (Call E jail w chatId path args)"
| "perform E (OpGetVM chatId) (jail, w) = (snd (GetVM jail chatId), w)"
| "perform E (OpSend call) (jail, w) = snd (Send E jail w call)"

fun perform_all :: "(env \<times> operation) list \<Rightarrow> Jail option \<times> world \<Rightarrow> Jail option \<times> world" where
  "perform_all [] st = st"
| "perform_all (x # xs) st = perform_all xs (perform (fst x) (snd x) st)"

section \<open>A concrete environment\<close>

text \<open>
  A node whose backend knows the block number, has no receipt for the transaction asked
  about, answers one method with a text that is not JSON, fails on another without an error
  code, and reports a structured error for every other method; a script engine in which the
  evaluation of the wrapper around the script body \<^verbatim>\<open>throw 1;\<close> fails and leaves the catalog
  undefined.  The decoders accept the requests below and report an error on any other text.
\<close>

definition block_request :: RPCCall where
  "block_request = \<lparr>Id' = JNumber 1, Method = ''eth_blockNumber'', Params = []\<rparr>"

definition bogus_request :: RPCCall where
  "bogus_request = \<lparr>Id' = JNumber 2, Method = ''bogus_method'', Params = []\<rparr>"

definition receipt_request :: RPCCall where
  "receipt_request =
     \<lparr>Id' = JNumber 3, Method = ''eth_getTransactionReceipt'', Params = [JString ''0x00'']\<rparr>"

definition balance_request :: RPCCall where
  "balance_request = \<lparr>Id' = JNumber 4, Method = ''eth_getBalance'', Params = []\<rparr>"

definition accounts_request :: RPCCall where
  "accounts_request = \<lparr>Id' = JNumber 5, Method = ''eth_accounts'', Params = []\<rparr>"

definition zero_request :: RPCCall where
  "zero_request = \<lparr>Id' = JNumber 0, Method = [], Params = []\<rparr>"

definition call_value :: "RPCCall \<Rightarrow> jsval" where
  "call_value r =
     JObject [(''id'', Id' r), (''method'', JString (Method r)), (''params'', JArray (Params r))]"

definition failing_script :: string where
  "failing_script =
     ''/* web3 */'' @ preamble @ ''throw 1;'' @ ''; var catalog = JSON.stringify(_status_catalog);''"

definition example_env :: env where
  \<open>example_env =
     \<lparr>HasNode = True,
      NodeManager_ClientRestartWrapper = Inr 1,
      NodeManager_JailedRequestQueue = Inr 2,
      ErrInvalidGethNode = ''no running geth node detected'',
      Web3_JS = ''/* web3 */'',
      client_Call = (\<lambda>c i method params.
         if method = ''eth_blockNumber'' then Inr (Some ''"0x10"'')
         else if method = ''eth_getTransactionReceipt'' then Inr None
         else if method = ''eth_getBalance'' then Inr (Some ''0x10'')
         else if method = ''eth_accounts'' then Inl (OtherError ''connection refused'')
         else Inl (RPCError (- 32601) ''method not found'')),
      otto_Run = (\<lambda>ops src. if src = failing_script then Some ''Error: 1'' else None),
      otto_Get = (\<lambda>ops name. JUndefined),
      otto_Call = (\<lambda>ops name args.
         if args = [JString ''ping'', JString ''[]''] then Inr (JString ''"pong"'')
         else Inl ''TypeError: not a function''),
      JSON_parse = (\<lambda>text.
         if text = ''"0x10"'' then Inr (JString ''0x10'')
         else Inl ''SyntaxError: Unexpected token''),
      json_Unmarshal_calls = (\<lambda>raw.
         if raw = json_text (JArray [call_value block_request, call_value bogus_request])
         then ([block_request, bogus_request], None)
         else ([], if raw = ''[]'' then None else Some ''json: cannot unmarshal'')),
      json_Unmarshal_call = (\<lambda>raw.
         if raw = json_text (call_value block_request) then (block_request, None)
         else if raw = json_text (call_value receipt_request) then (receipt_request, None)
         else (zero_request, Some ''json: cannot unmarshal'')),
      sem_Acquire = (\<lambda>s. None)\<rparr>\<close>

text \<open>The same environment with a gate whose bounded wait elapses.\<close>

definition busy_env :: env where
  "busy_env = example_env\<lparr>sem_Acquire := (\<lambda>s. Some ''could not aquire semaphore ticket'')\<rparr>"

definition jail0 :: Jail where
  "jail0 = \<lparr>client = None, cells = Map.empty, statusJS = [], requestQueue = None\<rparr>"

definition world0 :: world where
  "world0 = \<lparr>events = [], fresh = 0\<rparr>"

definition batch_call :: FunctionCall where
  "batch_call =
     \<lparr>Otto = 0, ArgumentList = [JArray [call_value block_request, call_value bogus_request]]\<rparr>"

definition callback_call :: FunctionCall where
  "callback_call =
     \<lparr>Otto = 0, ArgumentList = [call_value block_request, JFunction ''function (err, res) {}'']\<rparr>"

definition receipt_call :: FunctionCall where
  "receipt_call = \<lparr>Otto = 0, ArgumentList = [call_value receipt_request]\<rparr>"

definition hello_call :: FunctionCall where
  "hello_call = \<lparr>Otto = 0, ArgumentList = [JString ''hello'']\<rparr>"


text \<open>A registry that holds one cell and a client handle resolved earlier.\<close>

definition chat_cell :: JailedRuntime where
  "chat_cell = \<lparr>id' = ''chat'', vm = 0, sem = 1\<rparr>"

definition jail_chat :: Jail where
  "jail_chat =
     \<lparr>client = Some 5, cells = [''chat'' \<mapsto> chat_cell], statusJS = [], requestQueue = None\<rparr>"

section \<open>Auxiliary facts\<close>

lemma events_log [simp]: "events (log e w) = events w @ [e]"
  by (simp add: log_def)

lemma fresh_log [simp]: "fresh (log e w) = fresh w"
  by (simp add: log_def)

lemma events_run_deferred [simp]: "events (run_deferred d w) = events w @ d"
  unfolding run_deferred_def
  by (induction d arbitrary: w) simp_all

text \<open>The loop pushes one response per request and stacks one deferred call per request.\<close>

lemma execute_eq:
  "execute E c q v i reqs (resps, deferred, w) =
     (resps @ map (\<lambda>p. dispatch E c (fst p) (snd p)) (enumerate i reqs),
      rev (map (PostProcessRequest q v) reqs) @ deferred,
      w\<lparr>events := events w @ dispatch_events c q v reqs\<rparr>)"
proof (induction reqs arbitrary: i resps deferred w)
  case Nil
  show ?case by (simp add: dispatch_events_def)
next
  case (Cons req reqs)
  show ?case
    by (simp add: Cons.IH dispatch_events_def log_def Let_def)
qed

lemma members_newErrorResponse_id:
  "members (newErrorResponse code msg ident) ''id'' =
     Some (case ident of None \<Rightarrow> JNull | Some v \<Rightarrow> v)"
  by (simp add: newErrorResponse_def marshal_map_def go_map_def)

lemma members_dispatch_id: "members (dispatch E c i req) ''id'' = Some (Id' req)"
  by (simp add: dispatch_def Let_def members_newErrorResponse_id
           split: sum.split option.split go_error.split)

lemma nat_digits_0: "nat_digits 0 = ''0''"
  by (subst nat_digits.simps) (simp add: digit_char_def)






text \<open>The accessors and the registry.\<close>

lemma vm_ops_append: "vm_ops v (xs @ ys) = vm_ops v xs @ vm_ops v ys"
  by (induction v xs rule: vm_ops.induct) simp_all

lemma client_wrapper_cells:
  "ClientRestartWrapper E (Some j0) = (Inr c, jail') \<Longrightarrow> \<exists>j. jail' = Some j \<and> cells j = cells j0"
  by (auto simp: ClientRestartWrapper_def split: option.splits if_splits sum.splits)

lemma registry_frame_refl: "registry_frame jail jail"
  by (simp add: registry_frame_def split: option.split)

lemma registry_frame_trans:
  "registry_frame a b \<Longrightarrow> registry_frame b c \<Longrightarrow> registry_frame a c"
  by (auto simp: registry_frame_def split: option.splits)

lemma registry_frame_client: "registry_frame jail (snd (ClientRestartWrapper E jail))"
  by (simp add: registry_frame_def ClientRestartWrapper_def split: option.split sum.split)

lemma registry_frame_queue: "registry_frame jail (snd (RequestQueue E jail))"
  by (simp add: registry_frame_def RequestQueue_def split: option.split sum.split)

lemma Call_jail: "fst (snd (Call E jail w chatId path args)) = snd (ClientRestartWrapper E jail)"
  by (simp add: Call_def Let_def split: prod.split sum.split option.split)

lemma Send_jail:
  "fst (snd (Send E jail w call)) = snd (ClientRestartWrapper E jail) \<or>
   fst (snd (Send E jail w call)) = snd (RequestQueue E (snd (ClientRestartWrapper E jail)))"
  by (simp add: Send_def Let_def split: prod.split sum.split option.split)

lemma frame_Call: "registry_frame jail (fst (snd (Call E jail w chatId path args)))"
  by (simp add: Call_jail registry_frame_client)

lemma frame_GetVM: "registry_frame jail (snd (GetVM jail chatId))"
  by (simp add: GetVM_def registry_frame_refl split: option.split)

lemma frame_Send: "registry_frame jail (fst (snd (Send E jail w call)))"
  using Send_jail [of E jail w call] registry_frame_client [of jail E]
    registry_frame_trans [OF registry_frame_client registry_frame_queue, of jail E E]
  by auto

lemma frame_perform: "registry_frame (fst st) (fst (perform E x st))"
  by (cases st; cases x) (simp_all add: frame_Call frame_GetVM frame_Send)

lemma frame_perform_all: "registry_frame (fst st) (fst (perform_all xs st))"
proof (induction xs arbitrary: st)
  case Nil
  show ?case by (simp add: registry_frame_refl)
next
  case (Cons x xs)
  from registry_frame_trans [OF frame_perform Cons.IH]
  show ?case by simp
qed

text \<open>The bridge leaves the gates alone.\<close>

lemma gate_free_dispatch_events: "filter is_gate_event (dispatch_events c q v reqs) = []"
  by (induction reqs) (simp_all add: dispatch_events_def is_gate_event_def)

lemma gate_free_post_hooks: "filter is_gate_event (map (PostProcessRequest q v) reqs) = []"
  by (induction reqs) (simp_all add: is_gate_event_def)

lemma Send_gate_free:
  "filter is_gate_event (events (snd (snd (Send E jail w call)))) = filter is_gate_event (events w)"
  by (simp add: Send_def Let_def execute_eq gate_free_dispatch_events gate_free_post_hooks
        is_gate_event_def rev_map [symmetric]
      split: prod.split sum.split)

lemma error_member_newErrorResponse:
  "\<exists>ms. members (newErrorResponse code msg ident) ''error'' = Some (JObject ms)"
  by (simp add: newErrorResponse_def marshal_map_def go_map_def)

lemma error_code_newErrorResponse:
  "msg \<noteq> ''code'' \<Longrightarrow> error_code (newErrorResponse code msg ident) = Some (JNumber code)"
  by (simp add: error_code_def newErrorResponse_def marshal_map_def go_map_def)

section \<open>Properties of the registry and the bridge\<close>

text \<open>
  C9.  When the backend dispatch succeeds with a nil result, the response pushed for that
  request is the object with \<^verbatim>\<open>jsonrpc\<close>, the request's \<^verbatim>\<open>id\<close> and a \<^verbatim>\<open>result\<close> member that
  is the script engine's null value: not the string \<^verbatim>\<open>"null"\<close>, and not the outcome of parsing
  a JSON text.
\<close>

theorem null_result_is_native_null:
  assumes "i < length reqs"
      and "client_Call E c i (Method (reqs ! i)) (Params (reqs ! i)) = Inr None"
  shows "fst (execute E c q v 0 reqs ([], [], w)) ! i =
           JObject [(''jsonrpc'', JString ''2.0''), (''id'', Id' (reqs ! i)), (''result'', JNull)]"
  using assms by (simp add: execute_eq nth_enumerate_eq dispatch_def)

theorem null_result_is_native_null_witness:
  "0 < length [receipt_request] \<and>
   client_Call example_env 1 0 (Method ([receipt_request] ! 0)) (Params ([receipt_request] ! 0))
     = Inr None \<and>
   fst (execute example_env 1 2 0 0 [receipt_request] ([], [], world0)) ! 0 =
     JObject [(''jsonrpc'', JString ''2.0''), (''id'', JNumber 3), (''result'', JNull)] \<and>
   fst (Send example_env (Some jail0) world0 receipt_call) =
     Inr (JObject [(''jsonrpc'', JString ''2.0''), (''id'', JNumber 3), (''result'', JNull)])"
proof -
  have h1: "0 < length [receipt_request]"
    by simp
  have h2: "client_Call example_env 1 0 (Method ([receipt_request] ! 0))
              (Params ([receipt_request] ! 0)) = Inr None"
    by (simp add: example_env_def receipt_request_def)
  have id3: "Id' ([receipt_request] ! 0) = JNumber 3"
    by (simp add: receipt_request_def)
  have whole: "fst (Send example_env (Some jail0) world0 receipt_call) =
     Inr (JObject [(''jsonrpc'', JString ''2.0''), (''id'', JNumber 3), (''result'', JNull)])"
    by code_simp
  from null_result_is_native_null [OF h1 h2, of 2 0 world0] id3 h1 h2 whole
  show ?thesis by simp
qed

text \<open>
  C1 (amended).  When the client and the hook queue resolve and the request text is decoded
  into \<open>reqs\<close>, the output sequence has one response per request, the \<open>i\<close>-th response is the
  answer to the \<open>i\<close>-th request and carries that request's \<^verbatim>\<open>id\<close>.  The response value is the
  whole sequence for a batch and the only element of the sequence for a single request.  It
  is returned when the second argument is not a function; when it is a function, the response
  is passed to it as \<^verbatim>\<open>callback(null, response)\<close> and \<^verbatim>\<open>Send\<close> returns undefined.
\<close>

theorem Send_responses_follow_requests:
  assumes "ClientRestartWrapper E jail = (Inr c, jail1)"
      and "RequestQueue E jail1 = (Inr q, jail2)"
      and "JSON_stringify (Argument call 0) = Inr reqVal"
      and "decode_requests E (value_String reqVal) = Inr (batch, reqs)"
  shows "\<exists>resps response.
           length resps = length reqs \<and>
           (\<forall>i < length reqs. resps ! i = dispatch E c i (reqs ! i) \<and>
                              members (resps ! i) ''id'' = Some (Id' (reqs ! i))) \<and>
           (batch \<longrightarrow> response = JArray resps) \<and>
           (\<not> batch \<longrightarrow> resps = [response]) \<and>
           (Class (Argument call 1) \<noteq> ''Function'' \<longrightarrow> fst (Send E jail w call) = Inr response) \<and>
           (Class (Argument call 1) = ''Function'' \<longrightarrow>
              fst (Send E jail w call) = Inr JUndefined \<and>
              Vm (Otto call) (CallValue (Argument call 1) [JNull, response])
                \<in> set (events (snd (snd (Send E jail w call)))))"
proof -
  define resps where "resps = map (\<lambda>p. dispatch E c (fst p) (snd p)) (enumerate 0 reqs)"
  define response where
    "response = (if batch then JArray resps else Object_Get (JArray resps) ''0'')"
  have len: "length resps = length reqs"
    by (simp add: resps_def)
  have nth: "resps ! i = dispatch E c i (reqs ! i)" if "i < length reqs" for i
    using that by (simp add: resps_def nth_enumerate_eq)
  have whole: "response = JArray resps" if batch
    using that by (simp add: response_def)
  have single: "resps = [response]" if "\<not> batch"
  proof -
    from assms(4) that obtain r where "reqs = [r]"
      by (auto simp: decode_requests_def split: list.splits if_splits)
    then show ?thesis
      using that by (simp add: resps_def response_def nat_digits_0)
  qed
  have ret: "fst (Send E jail w call) = Inr response"
    if "Class (Argument call 1) \<noteq> ''Function''"
    using assms that
    by (simp add: Send_def execute_eq Let_def resps_def response_def)
  have cb: "fst (Send E jail w call) = Inr JUndefined \<and>
            Vm (Otto call) (CallValue (Argument call 1) [JNull, response])
              \<in> set (events (snd (snd (Send E jail w call))))"
    if "Class (Argument call 1) = ''Function''"
    using assms that
    by (simp add: Send_def execute_eq Let_def resps_def response_def)
  show ?thesis
    using len nth whole single ret cb
    by (intro exI [of _ resps] exI [of _ response]) (simp add: members_dispatch_id)
qed

theorem Send_responses_follow_requests_witness:
  "ClientRestartWrapper example_env (Some jail0) = (Inr 1, Some (jail0\<lparr>client := Some 1\<rparr>)) \<and>
   RequestQueue example_env (Some (jail0\<lparr>client := Some 1\<rparr>))
     = (Inr 2, Some (jail0\<lparr>client := Some 1, requestQueue := Some 2\<rparr>)) \<and>
   JSON_stringify (Argument batch_call 0)
     = Inr (JString (json_text (JArray [call_value block_request, call_value bogus_request]))) \<and>
   decode_requests example_env
       (value_String (JString (json_text (JArray [call_value block_request, call_value bogus_request]))))
     = Inr (True, [block_request, bogus_request]) \<and>
   (\<exists>resps. length resps = 2 \<and>
      members (resps ! 0) ''id'' = Some (JNumber 1) \<and>
      members (resps ! 1) ''id'' = Some (JNumber 2) \<and>
      fst (Send example_env (Some jail0) world0 batch_call) = Inr (JArray resps))"
proof -
  have h1: "ClientRestartWrapper example_env (Some jail0)
              = (Inr 1, Some (jail0\<lparr>client := Some 1\<rparr>))"
    by (simp add: ClientRestartWrapper_def example_env_def jail0_def)
  have h2: "RequestQueue example_env (Some (jail0\<lparr>client := Some 1\<rparr>))
              = (Inr 2, Some (jail0\<lparr>client := Some 1, requestQueue := Some 2\<rparr>))"
    by (simp add: RequestQueue_def example_env_def jail0_def)
  have h3: "JSON_stringify (Argument batch_call 0)
              = Inr (JString (json_text (JArray [call_value block_request, call_value bogus_request])))"
    by (simp add: JSON_stringify_def Argument_def batch_call_def call_value_def
          block_request_def bogus_request_def)
  have h4: "decode_requests example_env
       (value_String (JString (json_text (JArray [call_value block_request, call_value bogus_request]))))
     = Inr (True, [block_request, bogus_request])"
    by (simp add: decode_requests_def example_env_def)
  have nofn: "Class (Argument batch_call 1) \<noteq> ''Function''"
    by (simp add: Argument_def batch_call_def)
  have ids: "Id' ([block_request, bogus_request] ! 0) = JNumber 1"
            "Id' ([block_request, bogus_request] ! 1) = JNumber 2"
    by (simp_all add: block_request_def bogus_request_def)
  from Send_responses_follow_requests [OF h1 h2 h3 h4, of world0]
  obtain resps response where
    r: "length resps = length [block_request, bogus_request]"
       "\<forall>i < length [block_request, bogus_request].
           members (resps ! i) ''id'' = Some (Id' ([block_request, bogus_request] ! i))"
       "response = JArray resps"
       "fst (Send example_env (Some jail0) world0 batch_call) = Inr response"
    using nofn by auto
  from r(2) ids have "members (resps ! 0) ''id'' = Some (JNumber 1)"
      "members (resps ! 1) ''id'' = Some (JNumber 2)"
    by (auto simp del: nth_Cons_0)
  with r(1,3,4) h1 h2 h3 h4 show ?thesis
    by (intro conjI exI [of _ resps]) simp_all
qed

text \<open>
  The single request of \<open>callback_call\<close> is answered by one response, but \<^verbatim>\<open>Send\<close> returns
  undefined: the second argument is a function.
\<close>

theorem Send_single_with_callback_returns_undefined:
  "decode_requests example_env (json_text (call_value block_request))
     = Inr (False, [block_request]) \<and>
   fst (execute example_env 1 2 0 0 [block_request] ([], [], world0))
     = [JObject [(''jsonrpc'', JString ''2.0''), (''id'', JNumber 1), (''result'', JString ''0x10'')]] \<and>
   fst (Send example_env (Some jail0) world0 callback_call) = Inr JUndefined"
  by code_simp

text \<open>
  C8 (amended).  When the client and the hook queue resolve and the request text is decoded
  into \<open>reqs\<close>, what \<^verbatim>\<open>Send\<close> does to its collaborators is, in this order: for every request in
  turn the pre-dispatch hook and then the dispatch of that request; the callback, when one was
  given; and then, as \<^verbatim>\<open>Send\<close> returns, one post-dispatch hook per request, the hook of the
  last request first (the reverse of the order of registration).  This does not depend on the
  outcome of any dispatch.
\<close>

theorem Send_hook_order:
  assumes "ClientRestartWrapper E jail = (Inr c, jail1)"
      and "RequestQueue E jail1 = (Inr q, jail2)"
      and "JSON_stringify (Argument call 0) = Inr reqVal"
      and "decode_requests E (value_String reqVal) = Inr (batch, reqs)"
  shows "events (snd (snd (Send E jail w call))) =
           events w @ dispatch_events c q (Otto call) reqs @
           (if Class (Argument call 1) = ''Function''
            then [Vm (Otto call) (CallValue (Argument call 1)
                    [JNull, if batch then JArray (responses E c reqs)
                            else Object_Get (JArray (responses E c reqs)) ''0''])]
            else []) @
           map (PostProcessRequest q (Otto call)) (rev reqs)"
  using assms
  by (simp add: Send_def execute_eq Let_def responses_def rev_map)

theorem Send_hook_order_witness:
  "ClientRestartWrapper example_env (Some jail0) = (Inr 1, Some (jail0\<lparr>client := Some 1\<rparr>)) \<and>
   RequestQueue example_env (Some (jail0\<lparr>client := Some 1\<rparr>))
     = (Inr 2, Some (jail0\<lparr>client := Some 1, requestQueue := Some 2\<rparr>)) \<and>
   JSON_stringify (Argument batch_call 0)
     = Inr (JString (json_text (JArray [call_value block_request, call_value bogus_request]))) \<and>
   decode_requests example_env
       (value_String (JString (json_text (JArray [call_value block_request, call_value bogus_request]))))
     = Inr (True, [block_request, bogus_request]) \<and>
   events (snd (snd (Send example_env (Some jail0) world0 batch_call))) =
     dispatch_events 1 2 0 [block_request, bogus_request] @
     [PostProcessRequest 2 0 bogus_request, PostProcessRequest 2 0 block_request]"
proof -
  have h1: "ClientRestartWrapper example_env (Some jail0)
              = (Inr 1, Some (jail0\<lparr>client := Some 1\<rparr>))"
    by (simp add: ClientRestartWrapper_def example_env_def jail0_def)
  have h2: "RequestQueue example_env (Some (jail0\<lparr>client := Some 1\<rparr>))
              = (Inr 2, Some (jail0\<lparr>client := Some 1, requestQueue := Some 2\<rparr>))"
    by (simp add: RequestQueue_def example_env_def jail0_def)
  have h3: "JSON_stringify (Argument batch_call 0)
              = Inr (JString (json_text (JArray [call_value block_request, call_value bogus_request])))"
    by (simp add: JSON_stringify_def Argument_def batch_call_def call_value_def
          block_request_def bogus_request_def)
  have h4: "decode_requests example_env
       (value_String (JString (json_text (JArray [call_value block_request, call_value bogus_request]))))
     = Inr (True, [block_request, bogus_request])"
    by (simp add: decode_requests_def example_env_def)
  have nofn: "Class (Argument batch_call 1) \<noteq> ''Function''" and v: "Otto batch_call = 0"
    by (simp_all add: Argument_def batch_call_def)
  from Send_hook_order [OF h1 h2 h3 h4, of world0] nofn v h1 h2 h3 h4
  show ?thesis
    by (simp add: world0_def)
qed

text \<open>
  For the batch of two requests the post-dispatch hook of the second request runs before the
  hook of the first, which was registered first.
\<close>

theorem Send_post_hooks_run_last_registered_first:
  "events (snd (snd (Send example_env (Some jail0) world0 batch_call))) =
     [PreProcessRequest 2 0 block_request, ClientCall 1 ''eth_blockNumber'' [],
      PreProcessRequest 2 0 bogus_request, ClientCall 1 ''bogus_method'' [],
      PostProcessRequest 2 0 bogus_request, PostProcessRequest 2 0 block_request]"
  by code_simp



text \<open>
  C7 (amended).  \<^verbatim>\<open>Call\<close> resolves the client accessor first: when that fails, the error of
  the accessor is returned in the error envelope, whether the cell exists or not.  When the
  accessor resolves and the session identifier has no cell, the result is the error envelope
  that names the missing cell and nothing else happens.  When the cell exists, the entry point
  \<^verbatim>\<open>call\<close> is invoked in the cell's engine with the path and the arguments, and its value or
  its error is returned in the envelope.  In no case does the cell mapping change.
\<close>

theorem Call_looks_up_cell_after_client:
  \<open>(fst (ClientRestartWrapper E jail) = Inl err \<longrightarrow>
      fst (Call E jail w chatId path args) = Inr (printError err) \<and>
      snd (snd (Call E jail w chatId path args)) = w) \<and>
   (jail = Some j0 \<and> fst (ClientRestartWrapper E jail) = Inr c \<and> cells j0 chatId = None \<longrightarrow>
      fst (Call E jail w chatId path args)
        = Inr (printError (''Cell['' @ chatId @ ''] doesn't exist.'')) \<and>
      snd (snd (Call E jail w chatId path args)) = w) \<and>
   (jail = Some j0 \<and> fst (ClientRestartWrapper E jail) = Inr c \<and> cells j0 chatId = Some cell \<longrightarrow>
      events (snd (snd (Call E jail w chatId path args))) =
        events w @ [SemAcquire (sem cell) (sem_Acquire E (sem cell)),
                    Vm (vm cell) (CallFunction ''call'' [JString path, JString args]),
                    SemRelease (sem cell)] \<and>
      fst (Call E jail w chatId path args) =
        Inr (case otto_Call E (vm_history w (vm cell)) ''call'' [JString path, JString args] of
               Inl e \<Rightarrow> printError e
             | Inr res \<Rightarrow> printResult (value_String res) None)) \<and>
   (jail = Some j0 \<longrightarrow>
      (\<exists>j. fst (snd (Call E jail w chatId path args)) = Some j \<and> cells j = cells j0))\<close>
proof (intro conjI impI)
  assume "fst (ClientRestartWrapper E jail) = Inl err"
  then obtain jail' where "ClientRestartWrapper E jail = (Inl err, jail')"
    by (cases "ClientRestartWrapper E jail") simp
  then show "fst (Call E jail w chatId path args) = Inr (printError err)"
    and "snd (snd (Call E jail w chatId path args)) = w"
    by (simp_all add: Call_def)
next
  assume a: "jail = Some j0 \<and> fst (ClientRestartWrapper E jail) = Inr c \<and> cells j0 chatId = None"
  then obtain jail' where w: "ClientRestartWrapper E (Some j0) = (Inr c, jail')"
    by (cases "ClientRestartWrapper E jail") simp
  from client_wrapper_cells [OF w] obtain j where j: "jail' = Some j" "cells j = cells j0"
    by blast
  with a w show "fst (Call E jail w chatId path args)
        = Inr (printError (''Cell['' @ chatId @ ''] doesn't exist.''))"
    and "snd (snd (Call E jail w chatId path args)) = w"
    by (simp_all add: Call_def)
next
  assume a: "jail = Some j0 \<and> fst (ClientRestartWrapper E jail) = Inr c \<and> cells j0 chatId = Some cell"
  then obtain jail' where w: "ClientRestartWrapper E (Some j0) = (Inr c, jail')"
    by (cases "ClientRestartWrapper E jail") simp
  from client_wrapper_cells [OF w] obtain j where j: "jail' = Some j" "cells j = cells j0"
    by blast
  with a w show "events (snd (snd (Call E jail w chatId path args))) =
        events w @ [SemAcquire (sem cell) (sem_Acquire E (sem cell)),
                    Vm (vm cell) (CallFunction ''call'' [JString path, JString args]),
                    SemRelease (sem cell)]"
    by (simp add: Call_def Let_def)
  from j a w show "fst (Call E jail w chatId path args) =
        Inr (case otto_Call E (vm_history w (vm cell)) ''call'' [JString path, JString args] of
               Inl e \<Rightarrow> printError e
             | Inr res \<Rightarrow> printResult (value_String res) None)"
    by (simp add: Call_def Let_def vm_history_def vm_ops_append printResult_def split: sum.split)
next
  assume a: "jail = Some j0"
  show "\<exists>j. fst (snd (Call E jail w chatId path args)) = Some j \<and> cells j = cells j0"
  proof (cases "ClientRestartWrapper E (Some j0)")
    case (Pair r jail')
    show ?thesis
    proof (cases r)
      case (Inl err)
      with Pair a show ?thesis
        by (auto simp: Call_def ClientRestartWrapper_def split: option.splits if_splits sum.splits)
    next
      case (Inr c')
      with Pair client_wrapper_cells [of E j0 c' jail'] obtain j where "jail' = Some j" "cells j = cells j0"
        by blast
      with Pair Inr a show ?thesis
        by (simp add: Call_def Let_def split: option.split)
    qed
  qed
qed

theorem Call_looks_up_cell_after_client_witness:
  \<open>fst (ClientRestartWrapper (example_env\<lparr>HasNode := False\<rparr>) (Some jail0))
     = Inl ''no running geth node detected'' \<and>
   fst (Call (example_env\<lparr>HasNode := False\<rparr>) (Some jail0) world0 ''chat'' ''ping'' ''[]'')
     = Inr (printError ''no running geth node detected'') \<and>
   fst (ClientRestartWrapper example_env (Some jail0)) = Inr 1 \<and>
   cells jail0 ''chat'' = None \<and>
   fst (Call example_env (Some jail0) world0 ''chat'' ''ping'' ''[]'')
     = Inr ''{"error":"Cell[chat] doesn't exist."}'' \<and>
   snd (snd (Call example_env (Some jail0) world0 ''chat'' ''ping'' ''[]'')) = world0 \<and>
   fst (ClientRestartWrapper example_env (Some jail_chat)) = Inr 5 \<and>
   cells jail_chat ''chat'' = Some chat_cell \<and>
   events (snd (snd (Call example_env (Some jail_chat) world0 ''chat'' ''ping'' ''[]''))) =
     [SemAcquire 1 None, Vm 0 (CallFunction ''call'' [JString ''ping'', JString ''[]'']), SemRelease 1] \<and>
   fst (Call example_env (Some jail_chat) world0 ''chat'' ''ping'' ''[]'') = Inr ''{"result": "pong"}''\<close>
proof -
  have a1: "fst (ClientRestartWrapper (example_env\<lparr>HasNode := False\<rparr>) (Some jail0))
     = Inl ''no running geth node detected''"
    by (simp add: ClientRestartWrapper_def example_env_def jail0_def)
  have b1: "Some jail0 = Some jail0 \<and> fst (ClientRestartWrapper example_env (Some jail0)) = Inr 1 \<and>
            cells jail0 ''chat'' = None"
    by (simp add: ClientRestartWrapper_def example_env_def jail0_def)
  have c1: "Some jail_chat = Some jail_chat \<and>
            fst (ClientRestartWrapper example_env (Some jail_chat)) = Inr 5 \<and>
            cells jail_chat ''chat'' = Some chat_cell"
    by (simp add: ClientRestartWrapper_def example_env_def jail_chat_def)
  have pe: \<open>printError (''Cell['' @ ''chat'' @ ''] doesn't exist.'') = ''{"error":"Cell[chat] doesn't exist."}''\<close>
    by code_simp
  have ev: "sem_Acquire example_env 1 = None" "sem chat_cell = 1" "vm chat_cell = 0"
     "events world0 = []"
    by (simp_all add: example_env_def chat_cell_def world0_def)
  have oc: \<open>(case otto_Call example_env (vm_history world0 (vm chat_cell)) ''call''
               [JString ''ping'', JString ''[]''] of
               Inl e \<Rightarrow> printError e
             | Inr res \<Rightarrow> printResult (value_String res) None) = ''{"result": "pong"}''\<close>
    by code_simp
  from Call_looks_up_cell_after_client
         [of "example_env\<lparr>HasNode := False\<rparr>" "Some jail0" "''no running geth node detected''"
             world0 "''chat''" "''ping''" "''[]''"] a1
  have r1: "fst (Call (example_env\<lparr>HasNode := False\<rparr>) (Some jail0) world0 ''chat'' ''ping'' ''[]'')
     = Inr (printError ''no running geth node detected'')"
    by blast
  from Call_looks_up_cell_after_client
         [of example_env "Some jail0" _ world0 "''chat''" "''ping''" "''[]''" jail0 1] b1
  have r2: "fst (Call example_env (Some jail0) world0 ''chat'' ''ping'' ''[]'')
              = Inr (printError (''Cell['' @ ''chat'' @ ''] doesn't exist.''))"
           "snd (snd (Call example_env (Some jail0) world0 ''chat'' ''ping'' ''[]'')) = world0"
    by blast+
  from Call_looks_up_cell_after_client
         [of example_env "Some jail_chat" _ world0 "''chat''" "''ping''" "''[]''" jail_chat 5 chat_cell] c1
  have r3: "events (snd (snd (Call example_env (Some jail_chat) world0 ''chat'' ''ping'' ''[]''))) =
        events world0 @ [SemAcquire (sem chat_cell) (sem_Acquire example_env (sem chat_cell)),
                    Vm (vm chat_cell) (CallFunction ''call'' [JString ''ping'', JString ''[]'']),
                    SemRelease (sem chat_cell)]"
      "fst (Call example_env (Some jail_chat) world0 ''chat'' ''ping'' ''[]'') =
        Inr (case otto_Call example_env (vm_history world0 (vm chat_cell)) ''call''
                 [JString ''ping'', JString ''[]''] of
               Inl e \<Rightarrow> printError e
             | Inr res \<Rightarrow> printResult (value_String res) None)"
    by blast+
  from r2(1) have r2': \<open>fst (Call example_env (Some jail0) world0 ''chat'' ''ping'' ''[]'')
              = Inr ''{"error":"Cell[chat] doesn't exist."}''\<close>
    by (simp only: pe)
  from r3(1) have r3e: "events (snd (snd (Call example_env (Some jail_chat) world0 ''chat'' ''ping'' ''[]''))) =
     [SemAcquire 1 None, Vm 0 (CallFunction ''call'' [JString ''ping'', JString ''[]'']), SemRelease 1]"
    by (simp only: ev append_Nil)
  from r3(2) have r3r: \<open>fst (Call example_env (Some jail_chat) world0 ''chat'' ''ping'' ''[]'')
                        = Inr ''{"result": "pong"}''\<close>
    by (simp only: oc)
  from a1 b1 c1 r1 r2' r2(2) r3e r3r show ?thesis
    by blast
qed

text \<open>
  Without a running node, \<^verbatim>\<open>Call\<close> on a session identifier that has no cell answers with the
  error of the client accessor, not with the error that names the missing cell.
\<close>

theorem Call_unknown_cell_without_node:
  \<open>cells jail0 ''chat'' = None \<and>
   fst (Call (example_env\<lparr>HasNode := False\<rparr>) (Some jail0) world0 ''chat'' ''ping'' ''[]'') =
     Inr ''{"error":"no running geth node detected"}''\<close>
  by (simp add: Call_def ClientRestartWrapper_def example_env_def jail0_def printError_def json_quote_def json_escape_char_def)

text \<open>
  C2 (amended).  When the client accessor resolves, the cell exists and the gate is acquired,
  \<^verbatim>\<open>Call\<close> acquires the gate of the cell, then evaluates in the cell's engine, then releases the
  gate; this is so whatever the outcome of the evaluation.  The bridge's \<^verbatim>\<open>Send\<close> neither
  acquires nor releases a gate.
\<close>

theorem Call_holds_gate_around_evaluation:
  assumes "jail = Some j0"
      and "fst (ClientRestartWrapper E jail) = Inr c"
      and "cells j0 chatId = Some cell"
      and "sem_Acquire E (sem cell) = None"
  shows "events (snd (snd (Call E jail w chatId path args))) =
           events w @ [SemAcquire (sem cell) None,
                       Vm (vm cell) (CallFunction ''call'' [JString path, JString args]),
                       SemRelease (sem cell)] \<and>
         filter is_gate_event (events (snd (snd (Send E jail' w' call)))) =
           filter is_gate_event (events w')"
proof -
  from assms(1,2) obtain jail1 where w: "ClientRestartWrapper E (Some j0) = (Inr c, jail1)"
    by (cases "ClientRestartWrapper E jail") simp
  from client_wrapper_cells [OF w] obtain j where j: "jail1 = Some j" "cells j = cells j0"
    by blast
  from assms w j have "events (snd (snd (Call E jail w chatId path args))) =
           events w @ [SemAcquire (sem cell) None,
                       Vm (vm cell) (CallFunction ''call'' [JString path, JString args]),
                       SemRelease (sem cell)]"
    by (simp add: Call_def Let_def)
  then show ?thesis
    by (simp add: Send_gate_free)
qed

theorem Call_holds_gate_around_evaluation_witness:
  "fst (ClientRestartWrapper example_env (Some jail_chat)) = Inr 5 \<and>
   cells jail_chat ''chat'' = Some chat_cell \<and>
   sem_Acquire example_env (sem chat_cell) = None \<and>
   otto_Call example_env [] ''call'' [JString ''ping'', JString ''[]''] = Inr (JString [CHR 0x22, CHR ''p'', CHR ''o'', CHR ''n'', CHR ''g'', CHR 0x22]) \<and>
   events (snd (snd (Call example_env (Some jail_chat) world0 ''chat'' ''ping'' ''[]''))) =
     [SemAcquire 1 None, Vm 0 (CallFunction ''call'' [JString ''ping'', JString ''[]'']), SemRelease 1] \<and>
   otto_Call example_env [] ''call'' [JString ''nope'', JString ''[]''] = Inl ''TypeError: not a function'' \<and>
   events (snd (snd (Call example_env (Some jail_chat) world0 ''chat'' ''nope'' ''[]''))) =
     [SemAcquire 1 None, Vm 0 (CallFunction ''call'' [JString ''nope'', JString ''[]'']), SemRelease 1] \<and>
   filter is_gate_event (events (snd (snd (Send example_env (Some jail0) world0 callback_call)))) = []"
proof -
  have h1: "Some jail_chat = Some jail_chat"
    by simp
  have h2: "fst (ClientRestartWrapper example_env (Some jail_chat)) = Inr 5"
    by (simp add: ClientRestartWrapper_def example_env_def jail_chat_def)
  have h3: "cells jail_chat ''chat'' = Some chat_cell"
    by (simp add: jail_chat_def)
  have h4: "sem_Acquire example_env (sem chat_cell) = None"
    by (simp add: example_env_def)
  have o1: "otto_Call example_env [] ''call'' [JString ''ping'', JString ''[]''] = Inr (JString [CHR 0x22, CHR ''p'', CHR ''o'', CHR ''n'', CHR ''g'', CHR 0x22])"
    and o2: "otto_Call example_env [] ''call'' [JString ''nope'', JString ''[]''] = Inl ''TypeError: not a function''"
    by (simp_all add: example_env_def)
  have ev: "sem chat_cell = 1" "vm chat_cell = 0" "events world0 = []"
    by (simp_all add: chat_cell_def world0_def)
  from Call_holds_gate_around_evaluation [OF h1 h2 h3 h4, of world0 "''ping''" "''[]''" "Some jail0" world0 callback_call]
  have r1: "events (snd (snd (Call example_env (Some jail_chat) world0 ''chat'' ''ping'' ''[]''))) =
     [SemAcquire 1 None, Vm 0 (CallFunction ''call'' [JString ''ping'', JString ''[]'']), SemRelease 1]"
    and r3: "filter is_gate_event (events (snd (snd (Send example_env (Some jail0) world0 callback_call)))) = []"
    by (simp_all only: ev append_Nil filter.simps)
  from Call_holds_gate_around_evaluation [OF h1 h2 h3 h4, of world0 "''nope''" "''[]''" "Some jail0" world0 callback_call]
  have r2: "events (snd (snd (Call example_env (Some jail_chat) world0 ''chat'' ''nope'' ''[]''))) =
     [SemAcquire 1 None, Vm 0 (CallFunction ''call'' [JString ''nope'', JString ''[]'']), SemRelease 1]"
    by (simp_all only: ev append_Nil)
  from h2 h3 h4 o1 o2 r1 r2 r3 show ?thesis
    by blast
qed

text \<open>
  \<^verbatim>\<open>Send\<close> with a callback enters the script engine (it calls the callback) and touches no gate.
  And when the bounded wait of the gate elapses, \<^verbatim>\<open>Call\<close> evaluates in the engine all the same
  and releases a gate that it does not hold: the error of \<^verbatim>\<open>Acquire\<close> is not looked at.
\<close>

theorem Send_enters_the_engine_without_the_gate:
  \<open>events (snd (snd (Send example_env (Some jail0) world0 callback_call))) =
     [PreProcessRequest 2 0 block_request, ClientCall 1 ''eth_blockNumber'' [],
      Vm 0 (CallValue (JFunction ''function (err, res) {}'')
              [JNull, JObject [(''jsonrpc'', JString ''2.0''), (''id'', JNumber 1),
                               (''result'', JString ''0x10'')]]),
      PostProcessRequest 2 0 block_request] \<and>
   sem_Acquire busy_env (sem chat_cell) = Some ''could not aquire semaphore ticket'' \<and>
   fst (Call busy_env (Some jail_chat) world0 ''chat'' ''ping'' ''[]'') = Inr ''{"result": "pong"}'' \<and>
   events (snd (snd (Call busy_env (Some jail_chat) world0 ''chat'' ''ping'' ''[]''))) =
     [SemAcquire 1 (Some ''could not aquire semaphore ticket''),
      Vm 0 (CallFunction ''call'' [JString ''ping'', JString ''[]'']),
      SemRelease 1]\<close>
  by code_simp

text \<open>
  C3 (amended).  A structured error of the backend is passed through: the response is the
  object with \<^verbatim>\<open>jsonrpc\<close>, the request's \<^verbatim>\<open>id\<close> and \<^verbatim>\<open>error = {code, message}\<close>.  Any other
  failure of a dispatch, and a result that cannot be parsed, give a response that carries the
  request's \<^verbatim>\<open>id\<close> and an \<^verbatim>\<open>error\<close> object; when the failure message is not the word
  \<^verbatim>\<open>code\<close>, the \<^verbatim>\<open>code\<close> of that object is -32603.  When the client or the hook queue cannot
  be resolved, \<^verbatim>\<open>Send\<close> returns a response whose \<^verbatim>\<open>id\<close> is null and that has an \<^verbatim>\<open>error\<close>
  object; when the failure message is not the word \<^verbatim>\<open>code\<close>, its \<^verbatim>\<open>code\<close> is -32603.
\<close>

theorem bridge_error_responses:
  "(client_Call E c i (Method req) (Params req) = Inl (RPCError code msg) \<longrightarrow>
      dispatch E c i req =
        JObject [(''jsonrpc'', JString ''2.0''), (''id'', Id' req),
                 (''error'', JObject [(''code'', JNumber code), (''message'', JString msg)])]) \<and>
   (client_Call E c i (Method req) (Params req) = Inl (OtherError msg) \<or>
    (\<exists>result. client_Call E c i (Method req) (Params req) = Inr (Some result) \<and>
               JSON_parse E result = Inl msg) \<longrightarrow>
      members (dispatch E c i req) ''id'' = Some (Id' req) \<and>
      (\<exists>ms. members (dispatch E c i req) ''error'' = Some (JObject ms)) \<and>
      (msg \<noteq> ''code'' \<longrightarrow> error_code (dispatch E c i req) = Some (JNumber (- 32603)))) \<and>
   (fst (ClientRestartWrapper E jail) = Inl msg \<or>
    (\<exists>c'. fst (ClientRestartWrapper E jail) = Inr c') \<and>
      fst (RequestQueue E (snd (ClientRestartWrapper E jail))) = Inl msg \<longrightarrow>
      (\<exists>resp. fst (Send E jail w call) = Inr resp \<and>
              members resp ''id'' = Some JNull \<and>
              (\<exists>ms. members resp ''error'' = Some (JObject ms)) \<and>
              (msg \<noteq> ''code'' \<longrightarrow> error_code resp = Some (JNumber (- 32603)))))"
proof (intro conjI impI)
  assume "client_Call E c i (Method req) (Params req) = Inl (RPCError code msg)"
  then show "dispatch E c i req =
        JObject [(''jsonrpc'', JString ''2.0''), (''id'', Id' req),
                 (''error'', JObject [(''code'', JNumber code), (''message'', JString msg)])]"
    by (simp add: dispatch_def)
next
  assume a: "client_Call E c i (Method req) (Params req) = Inl (OtherError msg) \<or>
    (\<exists>result. client_Call E c i (Method req) (Params req) = Inr (Some result) \<and>
               JSON_parse E result = Inl msg)"
  show "members (dispatch E c i req) ''id'' = Some (Id' req)"
    by (rule members_dispatch_id)
  from a have d: "dispatch E c i req = newErrorResponse (- 32603) msg (Some (Id' req))"
    by (auto simp: dispatch_def)
  show "\<exists>ms. members (dispatch E c i req) ''error'' = Some (JObject ms)"
    using d by (simp add: error_member_newErrorResponse)
  show "error_code (dispatch E c i req) = Some (JNumber (- 32603))" if "msg \<noteq> ''code''"
    using that d by (simp add: error_code_newErrorResponse)
next
  assume a: "fst (ClientRestartWrapper E jail) = Inl msg \<or>
    (\<exists>c'. fst (ClientRestartWrapper E jail) = Inr c') \<and>
      fst (RequestQueue E (snd (ClientRestartWrapper E jail))) = Inl msg"
  have "fst (Send E jail w call) = Inr (newErrorResponse (- 32603) msg None)"
    using a by (cases "ClientRestartWrapper E jail"; cases "RequestQueue E (snd (ClientRestartWrapper E jail))")
               (auto simp: Send_def)
  then show "\<exists>resp. fst (Send E jail w call) = Inr resp \<and>
              members resp ''id'' = Some JNull \<and>
              (\<exists>ms. members resp ''error'' = Some (JObject ms)) \<and>
              (msg \<noteq> ''code'' \<longrightarrow> error_code resp = Some (JNumber (- 32603)))"
    by (simp add: members_newErrorResponse_id error_member_newErrorResponse
          error_code_newErrorResponse)
qed

theorem bridge_error_responses_witness:
  "client_Call example_env 1 1 (Method bogus_request) (Params bogus_request)
     = Inl (RPCError (- 32601) ''method not found'') \<and>
   dispatch example_env 1 1 bogus_request =
     JObject [(''jsonrpc'', JString ''2.0''), (''id'', JNumber 2),
              (''error'', JObject [(''code'', JNumber (- 32601)),
                                   (''message'', JString ''method not found'')])] \<and>
   client_Call example_env 1 0 (Method accounts_request) (Params accounts_request)
     = Inl (OtherError ''connection refused'') \<and>
   members (dispatch example_env 1 0 accounts_request) ''id'' = Some (JNumber 5) \<and>
   error_code (dispatch example_env 1 0 accounts_request) = Some (JNumber (- 32603)) \<and>
   client_Call example_env 1 0 (Method balance_request) (Params balance_request)
     = Inr (Some ''0x10'') \<and>
   JSON_parse example_env ''0x10'' = Inl ''SyntaxError: Unexpected token'' \<and>
   members (dispatch example_env 1 0 balance_request) ''id'' = Some (JNumber 4) \<and>
   error_code (dispatch example_env 1 0 balance_request) = Some (JNumber (- 32603)) \<and>
   fst (ClientRestartWrapper (example_env\<lparr>HasNode := False\<rparr>) (Some jail0))
     = Inl ''no running geth node detected'' \<and>
   (\<exists>resp. fst (Send (example_env\<lparr>HasNode := False\<rparr>) (Some jail0) world0 receipt_call) = Inr resp \<and>
           members resp ''id'' = Some JNull \<and> error_code resp = Some (JNumber (- 32603)))"
proof -
  have a1: "client_Call example_env 1 1 (Method bogus_request) (Params bogus_request)
     = Inl (RPCError (- 32601) ''method not found'')"
    by (simp add: example_env_def bogus_request_def)
  have a2: "client_Call example_env 1 0 (Method accounts_request) (Params accounts_request)
     = Inl (OtherError ''connection refused'')"
    by (simp add: example_env_def accounts_request_def)
  have a3: "client_Call example_env 1 0 (Method balance_request) (Params balance_request)
     = Inr (Some ''0x10'')"
    and a3': "JSON_parse example_env ''0x10'' = Inl ''SyntaxError: Unexpected token''"
    by (simp_all add: example_env_def balance_request_def)
  have a4: "fst (ClientRestartWrapper (example_env\<lparr>HasNode := False\<rparr>) (Some jail0))
     = Inl ''no running geth node detected''"
    by (simp add: ClientRestartWrapper_def example_env_def jail0_def)
  have ids: "Id' bogus_request = JNumber 2" "Id' accounts_request = JNumber 5"
    "Id' balance_request = JNumber 4"
    by (simp_all add: bogus_request_def accounts_request_def balance_request_def)
  have ne: "''method not found'' \<noteq> ''code''" "''connection refused'' \<noteq> ''code''"
    "''SyntaxError: Unexpected token'' \<noteq> ''code''" "''no running geth node detected'' \<noteq> ''code''"
    by simp_all
  from bridge_error_responses [where E = example_env and c = 1 and i = 1 and req = bogus_request
         and code = "- 32601" and msg = "''method not found''"] a1 ids
  have r1: "dispatch example_env 1 1 bogus_request =
     JObject [(''jsonrpc'', JString ''2.0''), (''id'', JNumber 2),
              (''error'', JObject [(''code'', JNumber (- 32601)),
                                   (''message'', JString ''method not found'')])]"
    by simp
  from bridge_error_responses [where E = example_env and c = 1 and i = 0
         and req = accounts_request and msg = "''connection refused''"] a2 ids ne
  have r2: "members (dispatch example_env 1 0 accounts_request) ''id'' = Some (JNumber 5)"
           "error_code (dispatch example_env 1 0 accounts_request) = Some (JNumber (- 32603))"
    by simp_all
  from bridge_error_responses [where E = example_env and c = 1 and i = 0
         and req = balance_request and msg = "''SyntaxError: Unexpected token''"] a3 a3' ids ne
  have r3: "members (dispatch example_env 1 0 balance_request) ''id'' = Some (JNumber 4)"
           "error_code (dispatch example_env 1 0 balance_request) = Some (JNumber (- 32603))"
    by simp_all
  from bridge_error_responses [where E = "example_env\<lparr>HasNode := False\<rparr>"
         and msg = "''no running geth node detected''" and jail = "Some jail0" and w = world0
         and call = receipt_call, THEN conjunct2, THEN conjunct2] a4 ne
  have r4: "\<exists>resp. fst (Send (example_env\<lparr>HasNode := False\<rparr>) (Some jail0) world0 receipt_call) = Inr resp \<and>
           members resp ''id'' = Some JNull \<and> error_code resp = Some (JNumber (- 32603))"
    by blast
  from a1 a2 a3 a3' a4 r1 r2 r3 r4 show ?thesis
    by blast
qed

text \<open>
  Without a running node the response to a request with the identifier 3 has a null \<^verbatim>\<open>id\<close>;
  its members are \<^verbatim>\<open>error\<close>, \<^verbatim>\<open>id\<close> and \<^verbatim>\<open>version\<close>, and the message stands under a key that
  is the message itself.
\<close>

theorem Send_without_node_has_null_id:
  "Argument receipt_call 0 = call_value receipt_request \<and>
   Id' receipt_request = JNumber 3 \<and>
   fst (Send (example_env\<lparr>HasNode := False\<rparr>) (Some jail0) world0 receipt_call) =
     Inr (JObject [(''error'', JObject [(''code'', JNumber (- 32603)),
                                        (''no running geth node detected'',
                                         JString ''no running geth node detected'')]),
                   (''id'', JNull), (''version'', JString ''2.0'')])"
  by code_simp

text \<open>
  C10.  \<^verbatim>\<open>Call\<close>, \<^verbatim>\<open>GetVM\<close> and \<^verbatim>\<open>Send\<close>, and any sequence of them, leave the cell mapping and
  the bootstrap text of the registry as they are; a client handle and a queue handle that are
  set are not overwritten, so each of them changes at most once, from unset to resolved.
\<close>

theorem registry_frame_Call_GetVM_Send:
  "registry_frame jail (fst (snd (Call E jail w chatId path args))) \<and>
   registry_frame jail (snd (GetVM jail chatId')) \<and>
   registry_frame jail (fst (snd (Send E jail w' call))) \<and>
   registry_frame jail (fst (perform_all ops (jail, w'')))"
  using frame_Call frame_GetVM frame_Send frame_perform_all [of "(jail, w'')" ops]
  by simp

theorem registry_frame_Call_GetVM_Send_witness:
  "client jail_chat = Some 5 \<and> requestQueue jail_chat = None \<and>
   NodeManager_ClientRestartWrapper example_env = Inr 1 \<and>
   NodeManager_JailedRequestQueue example_env = Inr 2 \<and>
   registry_frame (Some jail_chat)
     (fst (snd (Call example_env (Some jail_chat) world0 ''chat'' ''ping'' ''[]''))) \<and>
   registry_frame (Some jail_chat) (snd (GetVM (Some jail_chat) ''chat'')) \<and>
   registry_frame (Some jail_chat) (fst (snd (Send example_env (Some jail_chat) world0 batch_call))) \<and>
   registry_frame (Some jail_chat)
     (fst (perform_all [(example_env, OpSend batch_call), (example_env, OpCall ''chat'' ''ping'' ''[]'')]
            (Some jail_chat, world0))) \<and>
   map_option client (fst (snd (Send example_env (Some jail_chat) world0 batch_call))) = Some (Some 5) \<and>
   map_option requestQueue (fst (snd (Send example_env (Some jail_chat) world0 batch_call)))
     = Some (Some 2) \<and>
   map_option (\<lambda>j. cells j ''chat'') (fst (snd (Send example_env (Some jail_chat) world0 batch_call)))
     = Some (Some chat_cell)"
proof -
  have a: "client jail_chat = Some 5" "requestQueue jail_chat = None"
    "NodeManager_ClientRestartWrapper example_env = Inr 1"
    "NodeManager_JailedRequestQueue example_env = Inr 2"
    by (simp_all add: jail_chat_def example_env_def)
  have b: "map_option client (fst (snd (Send example_env (Some jail_chat) world0 batch_call))) = Some (Some 5)"
    "map_option requestQueue (fst (snd (Send example_env (Some jail_chat) world0 batch_call)))
     = Some (Some 2)"
    "map_option (\<lambda>j. cells j ''chat'') (fst (snd (Send example_env (Some jail_chat) world0 batch_call)))
     = Some (Some chat_cell)"
    by code_simp+
  from registry_frame_Call_GetVM_Send [of "Some jail_chat" example_env world0 "''chat''" "''ping''" "''[]''"
         "''chat''" world0 batch_call
         "[(example_env, OpSend batch_call), (example_env, OpCall ''chat'' ''ping'' ''[]'')]" world0] a b
  show ?thesis
    by blast
qed

text \<open>
  C4.  The evaluation of the wrapper around the script body \<^verbatim>\<open>throw 1;\<close> fails, and \<^verbatim>\<open>Parse\<close>
  returns a result envelope, not the error envelope: the error of the second evaluation is
  dropped, only that of the base script is reported.
\<close>

theorem Parse_hides_script_failure:
  \<open>otto_Run example_env
     [Run '';'', SetValue ''jeth'' (JObject []), BindSend ''jeth'' ''send'', BindSend ''jeth'' ''sendAsync'']
     (Web3_JS example_env @ preamble @ ''throw 1;'' @ ''; var catalog = JSON.stringify(_status_catalog);'')
     = Some ''Error: 1'' \<and>
   fst (Parse example_env (Some jail0) world0 ''chat'' ''throw 1;'') = ''{"result": null}''\<close>
  by code_simp

text \<open>
  C5.  The first argument \<^verbatim>\<open>"hello"\<close> is re-serialized without error, the decoder reports an
  error on the text, and \<^verbatim>\<open>Send\<close> goes on: it raises no exception and dispatches the request
  left in the target (empty method, no parameters) to the backend.
\<close>

theorem Send_dispatches_undecodable_request:
  "JSON_stringify (Argument hello_call 0) = Inr (JString (json_quote ''hello'')) \<and>
   snd (json_Unmarshal_call example_env (json_quote ''hello'')) = Some ''json: cannot unmarshal'' \<and>
   fst (Send example_env (Some jail0) world0 hello_call) =
     Inr (JObject [(''jsonrpc'', JString ''2.0''), (''id'', JNumber 0),
                   (''error'', JObject [(''code'', JNumber (- 32601)),
                                        (''message'', JString ''method not found'')])]) \<and>
   events (snd (snd (Send example_env (Some jail0) world0 hello_call))) =
     [PreProcessRequest 2 0 zero_request, ClientCall 1 [] [], PostProcessRequest 2 0 zero_request]"
  by code_simp

end
